theory Spec2Isabelle
  imports Main
begin

section \<open>Data model (types.ts)\<close>

text \<open>
  A privacy level is a JavaScript number; the type \<open>PrivacyLevel = 0 | 1 | 2 | 3 | 4\<close> is
  erased at run time, so the model uses \<open>int\<close> and states the range where a property
  depends on it.
\<close>

type_synonym PrivacyLevel = int

record PrivacyLevelDefinition =
  level :: PrivacyLevel
  level_name :: string
  description :: string

datatype RiskLevel = VeryHigh | High | Medium | Low

datatype AttributeCategory = Identity | Contact | Organizational | Activity

datatype RedactionStrategy = Omit | Replace

text \<open>Optional members (\<open>redaction?\<close>, \<open>redactedValue?\<close>, \<open>complianceProtected?\<close>) are
  \<open>option\<close>s: \<open>None\<close> is the absent member.\<close>

record AttributeDefinition =
  name :: string
  category :: AttributeCategory
  risk :: RiskLevel
  threshold :: PrivacyLevel
  redaction :: "RedactionStrategy option"
  redactedValue :: "string option"
  complianceProtected :: "bool option"

text \<open>
  A \<open>Record<string, T>\<close> object that is read by key (the attribute catalog, the
  collections, a field mapping) is given by its own properties, a map; it is a plain object,
  so that reading a key it does not have goes on to \<open>Object.prototype\<close> (\<open>getMember\<close>
  below). The member \<open>fields\<close> of \<open>CollectionConfig\<close> is \<open>fields_map\<close> here and the member
  \<open>fields\<close> of \<open>TransformResult\<close> is \<open>fields_res\<close>, the member \<open>value\<close> of \<open>FieldResult\<close>
  is \<open>fvalue\<close>: the plain names are taken by the record package and by a command.
\<close>

type_synonym FieldMapping = "string \<rightharpoonup> string"

record CollectionConfig =
  fields_map :: FieldMapping

record ResponsivePrivacyConfig =
  levels :: "PrivacyLevelDefinition list option"
  attributes :: "(string \<rightharpoonup> AttributeDefinition) option"
  collections :: "string \<rightharpoonup> CollectionConfig"

text \<open>\<open>Required<ResponsivePrivacyConfig>\<close>: every member present.\<close>

record RequiredConfig =
  levelsR :: "PrivacyLevelDefinition list"
  attributesR :: "string \<rightharpoonup> AttributeDefinition"
  collectionsR :: "string \<rightharpoonup> CollectionConfig"

record PrivacyContext =
  currentLevel :: PrivacyLevel
  config :: RequiredConfig

text \<open>
  Content values (\<open>unknown\<close>): frontmatter data. \<open>JUndefined\<close> is JavaScript's
  \<open>undefined\<close>.
\<close>

datatype jsval =
    JUndefined
  | JNull
  | JBool bool
  | JNum int
  | JStr string
  | JArr "jsval list"
  | JObj "(string \<times> jsval) list"

text \<open>
  A content record (\<open>Record<string, unknown>\<close>) is iterated in order, so it is the
  association list of its own properties in the order of \<open>Object.entries\<close>; an object has
  each key once (\<open>distinct (map fst data)\<close>).
\<close>

type_synonym jsrecord = "(string \<times> jsval) list"

text \<open>
  The value that \<open>collectionConfig.fields[field]\<close> gives when it is truthy: a string of the
  mapping, or the member of \<open>Object.prototype\<close> of that name (a function, or for
  \<open>__proto__\<close> the prototype object itself). \<open>FieldResult.attributeId\<close> is declared a
  string and holds whatever was read.
\<close>

datatype idval = IdString string | IdInherited string

record FieldResult =
  field :: string
  attributeId :: idval
  visible :: bool
  fvalue :: jsval
  redactionApplied :: "RedactionStrategy option"

record TransformResult =
  data :: jsrecord
  fields_res :: "FieldResult list"
  hiddenFields :: "string list"
  warnings :: "string list"

section \<open>Default taxonomy (defaults.ts)\<close>

definition DEFAULT_PRIVACY_LEVELS :: "PrivacyLevelDefinition list" where
  "DEFAULT_PRIVACY_LEVELS =
  [\<lparr>level = 0, level_name = ''Complete Anonymity'',
     description = ''Active threat, immediate danger. No attributes visible.''\<rparr>,
   \<lparr>level = 1, level_name = ''Role-Only Visibility'',
     description = ''Elevated threat environment. Only generic role and department visible.''\<rparr>,
   \<lparr>level = 2, level_name = ''Professional Identity'',
     description = ''Moderate threat, maintaining credibility. Name, role, and project attribution visible.''\<rparr>,
   \<lparr>level = 3, level_name = ''Public Professional'',
     description = ''Standard operations with security awareness. Full professional profile without direct contact.''\<rparr>,
   \<lparr>level = 4, level_name = ''Full Transparency'',
     description = ''No perceived threat, maximum accessibility. All attributes visible.''\<rparr>]"

definition DEFAULT_ATTRIBUTE_LIST :: "(string \<times> AttributeDefinition) list" where
  "DEFAULT_ATTRIBUTE_LIST =
  [
   (''ID-01'', \<lparr>name = ''Full Name'', category = Identity, risk = High, threshold = 2,
      redaction = Some Replace, redactedValue = Some ''Staff Member'', complianceProtected = None\<rparr>),
   (''ID-02'', \<lparr>name = ''Photo/Headshot'', category = Identity, risk = High, threshold = 2,
      redaction = Some Omit, redactedValue = None, complianceProtected = None\<rparr>),
   (''ID-03'', \<lparr>name = ''Job Title/Role'', category = Identity, risk = Medium, threshold = 1,
      redaction = None, redactedValue = None, complianceProtected = None\<rparr>),
   (''ID-04'', \<lparr>name = ''Biography/Background'', category = Identity, risk = Medium, threshold = 3,
      redaction = Some Omit, redactedValue = None, complianceProtected = None\<rparr>),
   (''ID-05'', \<lparr>name = ''Professional Credentials'', category = Identity, risk = Low, threshold = 3,
      redaction = None, redactedValue = None, complianceProtected = None\<rparr>),
   (''CV-01'', \<lparr>name = ''Email Address'', category = Contact, risk = VeryHigh, threshold = 4,
      redaction = Some Replace, redactedValue = Some ''Contact the organization'', complianceProtected = None\<rparr>),
   (''CV-02'', \<lparr>name = ''Phone Number'', category = Contact, risk = VeryHigh, threshold = 4,
      redaction = Some Omit, redactedValue = None, complianceProtected = None\<rparr>),
   (''CV-03'', \<lparr>name = ''Office Location/Address'', category = Contact, risk = VeryHigh, threshold = 4,
      redaction = Some Omit, redactedValue = None, complianceProtected = None\<rparr>),
   (''CV-04'', \<lparr>name = ''Social Media Links'', category = Contact, risk = Medium, threshold = 3,
      redaction = Some Omit, redactedValue = None, complianceProtected = None\<rparr>),
   (''CV-05'', \<lparr>name = ''Messaging Handles'', category = Contact, risk = High, threshold = 4,
      redaction = Some Omit, redactedValue = None, complianceProtected = None\<rparr>),
   (''OR-01'', \<lparr>name = ''Department/Team'', category = Organizational, risk = Low, threshold = 1,
      redaction = None, redactedValue = None, complianceProtected = None\<rparr>),
   (''OR-02'', \<lparr>name = ''Board Membership'', category = Organizational, risk = Medium, threshold = 3,
      redaction = None, redactedValue = None, complianceProtected = Some True\<rparr>),
   (''OR-03'', \<lparr>name = ''Partner Organizations'', category = Organizational, risk = Medium, threshold = 3,
      redaction = None, redactedValue = None, complianceProtected = None\<rparr>),
   (''OR-04'', \<lparr>name = ''Project Associations'', category = Organizational, risk = Low, threshold = 2,
      redaction = None, redactedValue = None, complianceProtected = None\<rparr>),
   (''OR-05'', \<lparr>name = ''Advisory/Volunteer Status'', category = Organizational, risk = Low, threshold = 3,
      redaction = None, redactedValue = None, complianceProtected = None\<rparr>),
   (''AD-01'', \<lparr>name = ''Work Schedule/Availability'', category = Activity, risk = High, threshold = 4,
      redaction = Some Omit, redactedValue = None, complianceProtected = None\<rparr>),
   (''AD-02'', \<lparr>name = ''Event Participation'', category = Activity, risk = Medium, threshold = 3,
      redaction = Some Omit, redactedValue = None, complianceProtected = None\<rparr>),
   (''AD-03'', \<lparr>name = ''Publication Dates'', category = Activity, risk = Low, threshold = 2,
      redaction = None, redactedValue = None, complianceProtected = None\<rparr>),
   (''AD-04'', \<lparr>name = ''Project Timelines'', category = Activity, risk = Medium, threshold = 3,
      redaction = None, redactedValue = None, complianceProtected = None\<rparr>),
   (''AD-05'', \<lparr>name = ''Bylines/Authorship'', category = Activity, risk = Medium, threshold = 2,
      redaction = Some Replace, redactedValue = Some ''Organization Staff'', complianceProtected = None\<rparr>)]"

definition DEFAULT_ATTRIBUTES :: "string \<rightharpoonup> AttributeDefinition" where
  "DEFAULT_ATTRIBUTES = map_of DEFAULT_ATTRIBUTE_LIST"

section \<open>JavaScript primitives used by the code\<close>

subsection \<open>Reading and writing properties\<close>

text \<open>
  \<open>obj[key]\<close> on a plain object: the own property when there is one, otherwise the member
  of \<open>Object.prototype\<close> of that name when there is one, otherwise \<open>undefined\<close>. The
  inherited members are functions, but for \<open>__proto__\<close>, an accessor that gives the
  prototype object; all of them are truthy, and none has a property \<open>fields\<close>,
  \<open>threshold\<close>, \<open>redaction\<close> or \<open>complianceProtected\<close>.
\<close>

definition objectPrototypeNames :: "string list" where
  "objectPrototypeNames =
     [''constructor'', ''__defineGetter__'', ''__defineSetter__'', ''hasOwnProperty'',
      ''__lookupGetter__'', ''__lookupSetter__'', ''isPrototypeOf'', ''propertyIsEnumerable'',
      ''toString'', ''valueOf'', ''__proto__'', ''toLocaleString'']"

datatype 'a lookup = Missing | Own 'a | Inherited string

definition getMember :: "(string \<rightharpoonup> 'a) \<Rightarrow> string \<Rightarrow> 'a lookup" where
  "getMember obj k =
     (case obj k of
        Some v \<Rightarrow> Own v
      | None \<Rightarrow> if k \<in> set objectPrototypeNames then Inherited k else Missing)"

text \<open>
  An inherited member used as a property key or in a template literal is converted to a
  string: a built-in function gives \<open>function <name>() { [native code] }\<close> (the name of
  \<open>constructor\<close> is \<open>Object\<close>), the prototype object gives \<open>[object Object]\<close>.
\<close>

definition inheritedToString :: "string \<Rightarrow> string" where
  "inheritedToString n =
     (if n = ''__proto__'' then ''[object Object]''
      else ''function '' @ (if n = ''constructor'' then ''Object'' else n)
           @ ''() { [native code] }'')"

fun idToString :: "idval \<Rightarrow> string" where
  "idToString (IdString s) = s"
| "idToString (IdInherited n) = inheritedToString n"

text \<open>
  \<open>obj[key] = v\<close> on the result object, given by its own properties: an existing key keeps
  its place, a new key goes last. The key \<open>__proto__\<close> is the exception: the assignment
  runs the inherited setter, which creates no own property (it replaces the prototype when
  \<open>v\<close> is an object or \<open>null\<close> and does nothing otherwise). \<open>getProperty\<close> is \<open>data[field]\<close>
  for a \<open>field\<close> of \<open>Object.keys(data)\<close>, an own property.
\<close>

fun setOwnProperty :: "jsrecord \<Rightarrow> string \<Rightarrow> jsval \<Rightarrow> jsrecord" where
  "setOwnProperty [] k v = [(k, v)]"
| "setOwnProperty (p # ps) k v =
     (if fst p = k then (k, v) # ps else p # setOwnProperty ps k v)"

definition setProperty :: "jsrecord \<Rightarrow> string \<Rightarrow> jsval \<Rightarrow> jsrecord" where
  "setProperty obj k v = (if k = ''__proto__'' then obj else setOwnProperty obj k v)"

definition getProperty :: "jsrecord \<Rightarrow> string \<Rightarrow> jsval" where
  "getProperty obj k = (case map_of obj k of None \<Rightarrow> JUndefined | Some v \<Rightarrow> v)"

subsection \<open>Numbers and strings\<close>

text \<open>
  A string is the list of the bytes of its UTF-8 encoding. A template literal formats an
  integral number in decimal, with a minus sign when negative.
\<close>

definition digitChar :: "nat \<Rightarrow> char" where
  "digitChar d = char_of (48 + d)"

fun decimalDigits :: "nat \<Rightarrow> string" where
  "decimalDigits n =
     (if n < 10 then [digitChar n]
      else decimalDigits (n div 10) @ [digitChar (n mod 10)])"

declare decimalDigits.simps [simp del]

definition numberToString :: "int \<Rightarrow> string" where
  "numberToString i =
     (if i < 0 then CHR ''-'' # decimalDigits (nat (- i)) else decimalDigits (nat i))"

text \<open>
  \<open>parseInt(s, 10)\<close> after ECMAScript: leading white space and line terminators are
  skipped, an optional sign is read, then the longest run of decimal digits; whatever
  follows is ignored. \<open>None\<close> is \<open>NaN\<close> (no digit was read). \<open>whiteSpaceLength\<close> is the
  number of bytes of the white space character a string starts with (0 when it starts with
  none): TAB, LF, VT, FF, CR, SP, and in UTF-8 U+00A0, U+1680, U+2000 to U+200A, U+2028,
  U+2029, U+202F, U+205F, U+3000 and U+FEFF.
\<close>

definition whiteSpaceLength :: "string \<Rightarrow> nat" where
  "whiteSpaceLength s =
     (case map of_char (take 3 s) :: nat list of
        [] \<Rightarrow> 0
      | a # r \<Rightarrow>
          if a \<in> {0x09, 0x0A, 0x0B, 0x0C, 0x0D, 0x20} then 1
          else if a = 0xC2 then (if take 1 r = [0xA0] then 2 else 0)
          else if a = 0xE1 then (if r = [0x9A, 0x80] then 3 else 0)
          else if a = 0xE2 then
            (case r of
               [b, x] \<Rightarrow>
                 if b = 0x80 \<and> (0x80 \<le> x \<and> x \<le> 0x8A \<or> x = 0xA8 \<or> x = 0xA9 \<or> x = 0xAF)
                    \<or> b = 0x81 \<and> x = 0x9F
                 then 3 else 0
             | _ \<Rightarrow> 0)
          else if a = 0xE3 then (if r = [0x80, 0x80] then 3 else 0)
          else if a = 0xEF then (if r = [0xBB, 0xBF] then 3 else 0)
          else 0)"

fun trimStart :: "string \<Rightarrow> string" where
  "trimStart [] = []"
| "trimStart (c # cs) =
     (let n = whiteSpaceLength (c # cs) in
      if n = 0 then c # cs else trimStart (drop (n - 1) cs))"

definition isDigit :: "char \<Rightarrow> bool" where
  "isDigit c = (48 \<le> (of_char c :: nat) \<and> (of_char c :: nat) \<le> 57)"

definition digitsValue :: "string \<Rightarrow> nat" where
  "digitsValue ds = foldl (\<lambda>acc c. 10 * acc + (of_char c - 48)) 0 ds"

definition parseInt :: "string \<Rightarrow> int option" where
  "parseInt str =
     (let S = trimStart str;
          sign = (if S \<noteq> [] \<and> hd S = CHR ''-'' then - 1 else 1 :: int);
          S1 = (if S \<noteq> [] \<and> (hd S = CHR ''+'' \<or> hd S = CHR ''-'') then tl S else S);
          Z = takeWhile isDigit S1
      in if Z = [] then None else Some (sign * int (digitsValue Z)))"

section \<open>Configuration resolver (config.ts)\<close>

definition resolveConfig :: "ResponsivePrivacyConfig \<Rightarrow> RequiredConfig" where
  "resolveConfig cfg =
     \<lparr>levelsR = (case levels cfg of None \<Rightarrow> DEFAULT_PRIVACY_LEVELS | Some ls \<Rightarrow> ls),
      attributesR = DEFAULT_ATTRIBUTES ++ (case attributes cfg of None \<Rightarrow> Map.empty | Some m \<Rightarrow> m),
      collectionsR = collections cfg\<rparr>"

text \<open>
  \<open>readPrivacyLevel\<close> reads \<open>process.env.PRIVACY_LEVEL\<close>: the environment's value is the
  parameter \<open>envVal\<close> (\<open>None\<close> when unset), the optional argument \<open>fallback\<close> defaults
  to 4, and the lines given to \<open>console.warn\<close> are returned with the level.
\<close>

definition invalidLevelMessage :: "string \<Rightarrow> PrivacyLevel \<Rightarrow> string" where
  \<open>invalidLevelMessage envVal fallback =
     ''[responsive-privacy] Invalid PRIVACY_LEVEL="'' @ envVal @ ''". Must be 0'' @
     [char_of (0xE2 :: nat), char_of (0x80 :: nat), char_of (0x93 :: nat)] @
     ''4. Falling back to '' @ numberToString fallback @ ''.''\<close>

definition readPrivacyLevel :: "string option \<Rightarrow> PrivacyLevel option \<Rightarrow> PrivacyLevel \<times> string list" where
  "readPrivacyLevel envVal fallbackArg =
     (let fallback = (case fallbackArg of None \<Rightarrow> 4 | Some f \<Rightarrow> f) in
      case envVal of
        None \<Rightarrow> (fallback, [])
      | Some ev \<Rightarrow>
          if ev = [] then (fallback, [])
          else (case parseInt ev of
                  None \<Rightarrow> (fallback, [invalidLevelMessage ev fallback])
                | Some parsed \<Rightarrow>
                    if parsed < 0 \<or> parsed > 4
                    then (fallback, [invalidLevelMessage ev fallback])
                    else (parsed, [])))"

definition createContext ::
  "string option \<Rightarrow> ResponsivePrivacyConfig \<Rightarrow> PrivacyLevel option \<Rightarrow> PrivacyContext \<times> string list" where
  "createContext envVal cfg lvlArg =
     (let (lvl, out) = (case lvlArg of None \<Rightarrow> readPrivacyLevel envVal None | Some l \<Rightarrow> (l, []))
      in (\<lparr>currentLevel = lvl, config = resolveConfig cfg\<rparr>, out))"

section \<open>Visibility and redaction (transformer.ts)\<close>

text \<open>
  \<open>attr = attributes[attributeId]\<close> is an attribute definition of the catalog, or an
  inherited member, or \<open>undefined\<close>. \<open>!attr\<close> holds for \<open>undefined\<close> only. For an inherited
  member \<open>attr.threshold\<close> is \<open>undefined\<close>, and \<open>currentLevel >= undefined\<close> is false.
\<close>

definition isAttributeVisible ::
  "string \<Rightarrow> PrivacyLevel \<Rightarrow> (string \<rightharpoonup> AttributeDefinition) \<Rightarrow> bool" where
  "isAttributeVisible aid lvl attrs =
     (case getMember attrs aid of
        Missing \<Rightarrow> True
      | Own attr \<Rightarrow> lvl \<ge> threshold attr
      | Inherited m \<Rightarrow> False)"

definition getRedactedValue :: "AttributeDefinition \<Rightarrow> jsval" where
  "getRedactedValue attr =
     (let strategy = (case redaction attr of None \<Rightarrow> Omit | Some s \<Rightarrow> s) in
      if strategy = Omit then JUndefined
      else if strategy = Replace then
        JStr (case redactedValue attr of
                None \<Rightarrow> ''['' @ name attr @ '' hidden]''
              | Some r \<Rightarrow> r)
      else JUndefined)"

text \<open>
  \<open>applyPrivacy\<close>: the loop over \<open>Object.entries(data)\<close>. The loop's state is the four
  local variables (\<open>result\<close>, \<open>fields\<close>, \<open>hiddenFields\<close>, \<open>warnings\<close>, held in a
  \<open>TransformResult\<close>) and the lines given to \<open>console.warn\<close>. \<open>!attributeId\<close> holds for a
  missing mapping and for the empty string; an inherited member is truthy.
\<close>

definition unknownAttributeMessage :: "string \<Rightarrow> string \<Rightarrow> string" where
  \<open>unknownAttributeMessage fld aid =
     ''[responsive-privacy] Field "'' @ fld @ ''" mapped to unknown attribute "'' @ aid @
     ''". Passing through.''\<close>

definition complianceWarning :: "AttributeDefinition \<Rightarrow> string \<Rightarrow> PrivacyLevel \<Rightarrow> string" where
  \<open>complianceWarning attr aid lvl =
     ''Compliance-protected attribute "'' @ name attr @ ''" ('' @ aid @ '') '' @
     ''would be hidden at Level '' @ numberToString lvl @
     '' (threshold: '' @ numberToString (threshold attr) @ ''). '' @
     ''Requires legal review before removal.''\<close>

text \<open>
  Lines 117 to 183 of the loop body, for a truthy \<open>attributeId\<close>. With an inherited member
  for \<open>attr\<close> the field is not visible, \<open>attr.complianceProtected\<close> is \<open>undefined\<close>,
  \<open>getRedactedValue(attr)\<close> is \<open>undefined\<close> and the strategy is \<open>omit\<close>.
\<close>

definition applyAttribute ::
  "PrivacyContext \<Rightarrow> TransformResult \<times> string list \<Rightarrow> string \<Rightarrow> jsval \<Rightarrow> idval
     \<Rightarrow> TransformResult \<times> string list" where
  "applyAttribute ctx st fld val aid =
     (let (r, out) = st in
      case getMember (attributesR (config ctx)) (idToString aid) of
        Missing \<Rightarrow>
          (r\<lparr>data := setProperty (data r) fld val,
             fields_res := fields_res r @
               [\<lparr>field = fld, attributeId = aid, visible = True, fvalue = val,
                 redactionApplied = None\<rparr>]\<rparr>,
           out @ [unknownAttributeMessage fld (idToString aid)])
      | Inherited m \<Rightarrow>
          (r\<lparr>fields_res := fields_res r @
               [\<lparr>field = fld, attributeId = aid, visible = False, fvalue = JUndefined,
                 redactionApplied = Some Omit\<rparr>],
             hiddenFields := hiddenFields r @ [fld]\<rparr>, out)
      | Own attr \<Rightarrow>
          if currentLevel ctx \<ge> threshold attr then
            (r\<lparr>data := setProperty (data r) fld val,
               fields_res := fields_res r @
                 [\<lparr>field = fld, attributeId = aid, visible = True, fvalue = val,
                   redactionApplied = None\<rparr>]\<rparr>, out)
          else
            (let r1 = (if complianceProtected attr = Some True
                       then r\<lparr>warnings := warnings r @
                              [complianceWarning attr (idToString aid) (currentLevel ctx)]\<rparr>
                       else r);
                 redacted = getRedactedValue attr;
                 strategy = (case redaction attr of None \<Rightarrow> Omit | Some s \<Rightarrow> s);
                 r2 = (if strategy = Replace \<and> redacted \<noteq> JUndefined then
                         r1\<lparr>data := setProperty (data r1) fld redacted,
                            fields_res := fields_res r1 @
                              [\<lparr>field = fld, attributeId = aid, visible = False,
                                fvalue = redacted, redactionApplied = Some Replace\<rparr>]\<rparr>
                       else
                         r1\<lparr>fields_res := fields_res r1 @
                              [\<lparr>field = fld, attributeId = aid, visible = False,
                                fvalue = JUndefined, redactionApplied = Some Omit\<rparr>]\<rparr>)
             in (r2\<lparr>hiddenFields := hiddenFields r2 @ [fld]\<rparr>, out)))"

text \<open>The loop body: lines 103 to 115 (\<open>collectionConfig.fields[field]\<close> and the
  pass-through of a falsy \<open>attributeId\<close>), then the lines above.\<close>

definition applyPrivacyStep ::
  "CollectionConfig \<Rightarrow> PrivacyContext \<Rightarrow> TransformResult \<times> string list \<Rightarrow> string \<times> jsval
     \<Rightarrow> TransformResult \<times> string list" where
  "applyPrivacyStep cc ctx st entry =
     (let (r, out) = st; (fld, val) = entry in
      case getMember (fields_map cc) fld of
        Missing \<Rightarrow>
          (r\<lparr>data := setProperty (data r) fld val,
             fields_res := fields_res r @
               [\<lparr>field = fld, attributeId = IdString [], visible = True, fvalue = val,
                 redactionApplied = None\<rparr>]\<rparr>, out)
      | Own aid \<Rightarrow>
          if aid = [] then
            (r\<lparr>data := setProperty (data r) fld val,
               fields_res := fields_res r @
                 [\<lparr>field = fld, attributeId = IdString [], visible = True, fvalue = val,
                   redactionApplied = None\<rparr>]\<rparr>, out)
          else applyAttribute ctx (r, out) fld val (IdString aid)
      | Inherited n \<Rightarrow> applyAttribute ctx (r, out) fld val (IdInherited n))"

text \<open>
  \<open>applyPrivacy\<close> is called with whatever \<open>collections[collectionName]\<close> gave, when that
  is truthy. For an inherited member \<open>collectionConfig.fields\<close> is \<open>undefined\<close>, and the
  first iteration throws a \<open>TypeError\<close> on \<open>collectionConfig.fields[field]\<close>, before
  anything is logged; with no entry to iterate, the empty result is returned.
\<close>

datatype js_error = TypeError

definition applyPrivacy ::
  "jsrecord \<Rightarrow> CollectionConfig lookup \<Rightarrow> PrivacyContext
     \<Rightarrow> js_error + TransformResult \<times> string list" where
  "applyPrivacy dat collectionConfig ctx =
     (case collectionConfig of
        Own cc \<Rightarrow>
          Inr (foldl (applyPrivacyStep cc ctx)
                 (\<lparr>data = [], fields_res = [], hiddenFields = [], warnings = []\<rparr>, []) dat)
      | _ \<Rightarrow>
          if dat = [] then
            Inr (\<lparr>data = [], fields_res = [], hiddenFields = [], warnings = []\<rparr>, [])
          else Inl TypeError)"

text \<open>\<open>transformEntry\<close>: \<open>!collectionConfig\<close> holds for \<open>undefined\<close> only; then the record
  is copied through, and \<open>{ ...data }\<close> has the own properties of \<open>data\<close> in their order.\<close>

definition transformEntry ::
  "string \<Rightarrow> jsrecord \<Rightarrow> PrivacyContext \<Rightarrow> js_error + TransformResult \<times> string list" where
  "transformEntry collectionName dat ctx =
     (case getMember (collectionsR (config ctx)) collectionName of
        Missing \<Rightarrow>
          Inr (\<lparr>data = dat,
                fields_res = map (\<lambda>fld. \<lparr>field = fld, attributeId = IdString [],
                                         visible = True, fvalue = getProperty dat fld,
                                         redactionApplied = None\<rparr>)
                               (map fst dat),
                hiddenFields = [],
                warnings = []\<rparr>, [])
      | collectionConfig \<Rightarrow> applyPrivacy dat collectionConfig ctx)"

section \<open>Template helper (helpers.ts)\<close>

text \<open>
  \<open>shouldShow\<close> builds its context from \<open>level ?? readPrivacyLevel()\<close>; the lines logged
  on the way are returned with the answer. For an inherited member as \<open>collection\<close>,
  \<open>collection.fields[fieldName]\<close> throws a \<open>TypeError\<close>.
\<close>

definition shouldShow ::
  "string option \<Rightarrow> string \<Rightarrow> string \<Rightarrow> ResponsivePrivacyConfig \<Rightarrow> PrivacyLevel option
     \<Rightarrow> (js_error + bool) \<times> string list" where
  "shouldShow envVal collectionName fieldName cfg lvlArg =
     (let (lvl, out0) = (case lvlArg of None \<Rightarrow> readPrivacyLevel envVal None | Some l \<Rightarrow> (l, []));
          (ctx, out1) = createContext envVal cfg (Some lvl);
          out = out0 @ out1;
          attrs = attributesR (config ctx)
      in case getMember (collectionsR (config ctx)) collectionName of
           Missing \<Rightarrow> (Inr True, out)
         | Inherited n \<Rightarrow> (Inl TypeError, out)
         | Own collection \<Rightarrow>
             (case getMember (fields_map collection) fieldName of
                Missing \<Rightarrow> (Inr True, out)
              | Own aid \<Rightarrow>
                  if aid = [] then (Inr True, out)
                  else (case getMember attrs aid of
                          Missing \<Rightarrow> (Inr True, out)
                        | Own attr \<Rightarrow> (Inr (currentLevel ctx \<ge> threshold attr), out)
                        | Inherited m \<Rightarrow> (Inr False, out))
              | Inherited n \<Rightarrow>
                  (case getMember attrs (inheritedToString n) of
                     Missing \<Rightarrow> (Inr True, out)
                   | Own attr \<Rightarrow> (Inr (currentLevel ctx \<ge> threshold attr), out)
                   | Inherited m \<Rightarrow> (Inr False, out))))"

section \<open>The specification's redaction resolver\<close>

text \<open>The specification's words: \<open>resolveRedaction(attribute) -> Substitute\<close>, where a
  substitute is either the omit signal or a replacement text.\<close>

datatype Substitute = SOmit | SReplace string

definition resolveRedaction :: "AttributeDefinition \<Rightarrow> Substitute" where
  "resolveRedaction attr =
     (case redaction attr of
        None \<Rightarrow> SOmit
      | Some Omit \<Rightarrow> SOmit
      | Some Replace \<Rightarrow>
          (case redactedValue attr of
             Some r \<Rightarrow> SReplace r
           | None \<Rightarrow> SReplace (''['' @ name attr @ '' hidden]'')))"

fun substituteValue :: "Substitute \<Rightarrow> jsval" where
  "substituteValue SOmit = JUndefined"
| "substituteValue (SReplace r) = JStr r"

section \<open>The loop of \<open>applyPrivacy\<close>, field by field\<close>

text \<open>
  What one iteration adds to each of the loop's variables, as functions of the field: they
  serve the proofs (\<open>applyPrivacyStep_eq\<close> shows that the loop body is exactly this).
  \<open>fieldAttributeId\<close> is the truthy \<open>attributeId\<close> of a field, \<open>governingAttribute\<close> what
  the catalog gives for it.
\<close>

definition fieldAttributeId :: "CollectionConfig \<Rightarrow> string \<Rightarrow> idval option" where
  "fieldAttributeId cc fld =
     (case getMember (fields_map cc) fld of
        Missing \<Rightarrow> None
      | Own aid \<Rightarrow> if aid = [] then None else Some (IdString aid)
      | Inherited n \<Rightarrow> Some (IdInherited n))"

definition governingAttribute ::
  "CollectionConfig \<Rightarrow> PrivacyContext \<Rightarrow> string \<Rightarrow> AttributeDefinition lookup" where
  "governingAttribute cc ctx fld =
     (case fieldAttributeId cc fld of
        None \<Rightarrow> Missing
      | Some aid \<Rightarrow> getMember (attributesR (config ctx)) (idToString aid))"

definition hiddenAt :: "CollectionConfig \<Rightarrow> PrivacyContext \<Rightarrow> string \<Rightarrow> bool" where
  "hiddenAt cc ctx fld =
     (case governingAttribute cc ctx fld of
        Missing \<Rightarrow> False
      | Own attr \<Rightarrow> currentLevel ctx < threshold attr
      | Inherited m \<Rightarrow> True)"

definition omittedAt :: "CollectionConfig \<Rightarrow> PrivacyContext \<Rightarrow> string \<Rightarrow> bool" where
  "omittedAt cc ctx fld =
     (case governingAttribute cc ctx fld of
        Missing \<Rightarrow> False
      | Own attr \<Rightarrow> currentLevel ctx < threshold attr \<and> redaction attr \<noteq> Some Replace
      | Inherited m \<Rightarrow> True)"

definition stepFieldResult ::
  "CollectionConfig \<Rightarrow> PrivacyContext \<Rightarrow> string \<Rightarrow> jsval \<Rightarrow> FieldResult" where
  "stepFieldResult cc ctx fld val =
     (let aid = (case fieldAttributeId cc fld of None \<Rightarrow> IdString [] | Some a \<Rightarrow> a) in
      case governingAttribute cc ctx fld of
        Missing \<Rightarrow>
          \<lparr>field = fld, attributeId = aid, visible = True, fvalue = val,
           redactionApplied = None\<rparr>
      | Inherited m \<Rightarrow>
          \<lparr>field = fld, attributeId = aid, visible = False, fvalue = JUndefined,
           redactionApplied = Some Omit\<rparr>
      | Own attr \<Rightarrow>
          if currentLevel ctx \<ge> threshold attr then
            \<lparr>field = fld, attributeId = aid, visible = True, fvalue = val,
             redactionApplied = None\<rparr>
          else if redaction attr = Some Replace then
            \<lparr>field = fld, attributeId = aid, visible = False,
             fvalue = getRedactedValue attr, redactionApplied = Some Replace\<rparr>
          else
            \<lparr>field = fld, attributeId = aid, visible = False, fvalue = JUndefined,
             redactionApplied = Some Omit\<rparr>)"

definition stepWarnings :: "CollectionConfig \<Rightarrow> PrivacyContext \<Rightarrow> string \<Rightarrow> string list" where
  "stepWarnings cc ctx fld =
     (case fieldAttributeId cc fld of
        None \<Rightarrow> []
      | Some aid \<Rightarrow>
          (case getMember (attributesR (config ctx)) (idToString aid) of
             Own attr \<Rightarrow>
               if currentLevel ctx < threshold attr \<and> complianceProtected attr = Some True
               then [complianceWarning attr (idToString aid) (currentLevel ctx)] else []
           | _ \<Rightarrow> []))"

definition stepConsole :: "CollectionConfig \<Rightarrow> PrivacyContext \<Rightarrow> string \<Rightarrow> string list" where
  "stepConsole cc ctx fld =
     (case fieldAttributeId cc fld of
        None \<Rightarrow> []
      | Some aid \<Rightarrow>
          (case getMember (attributesR (config ctx)) (idToString aid) of
             Missing \<Rightarrow> [unknownAttributeMessage fld (idToString aid)]
           | _ \<Rightarrow> []))"

definition stepData :: "CollectionConfig \<Rightarrow> PrivacyContext \<Rightarrow> jsrecord \<Rightarrow> string \<times> jsval \<Rightarrow> jsrecord" where
  "stepData cc ctx d entry =
     (if omittedAt cc ctx (fst entry) then d
      else setProperty d (fst entry) (fvalue (stepFieldResult cc ctx (fst entry) (snd entry))))"

section \<open>The specification's account of a field\<close>


section \<open>The specification's level input\<close>


definition whiteSpaceChars :: "string list" where
  "whiteSpaceChars =
     [[CHR 0x09], [CHR 0x0A], [CHR 0x0B], [CHR 0x0C], [CHR 0x0D], [CHR 0x20],
      [CHR 0xC2, CHR 0xA0], [CHR 0xE1, CHR 0x9A, CHR 0x80],
      [CHR 0xE2, CHR 0x80, CHR 0x80], [CHR 0xE2, CHR 0x80, CHR 0x81],
      [CHR 0xE2, CHR 0x80, CHR 0x82], [CHR 0xE2, CHR 0x80, CHR 0x83],
      [CHR 0xE2, CHR 0x80, CHR 0x84], [CHR 0xE2, CHR 0x80, CHR 0x85],
      [CHR 0xE2, CHR 0x80, CHR 0x86], [CHR 0xE2, CHR 0x80, CHR 0x87],
      [CHR 0xE2, CHR 0x80, CHR 0x88], [CHR 0xE2, CHR 0x80, CHR 0x89],
      [CHR 0xE2, CHR 0x80, CHR 0x8A], [CHR 0xE2, CHR 0x80, CHR 0xA8],
      [CHR 0xE2, CHR 0x80, CHR 0xA9], [CHR 0xE2, CHR 0x80, CHR 0xAF],
      [CHR 0xE2, CHR 0x81, CHR 0x9F], [CHR 0xE3, CHR 0x80, CHR 0x80],
      [CHR 0xEF, CHR 0xBB, CHR 0xBF]]"


section \<open>The specification's compliance condition\<close>


section \<open>Example inputs\<close>

text \<open>The playground's configuration (\<open>responsive-privacy.config.ts\<close>) and the sample
  record and the governance configuration of \<open>transformer.test.ts\<close>.\<close>

definition playgroundTeam :: CollectionConfig where
  "playgroundTeam =
     \<lparr>fields_map = map_of
        [(''name'', ''ID-01''), (''photo'', ''ID-02''), (''role'', ''ID-03''),
         (''bio'', ''ID-04''), (''email'', ''CV-01''), (''phone'', ''CV-02''),
         (''social'', ''CV-04''), (''department'', ''OR-01'')]\<rparr>"

definition playgroundPosts :: CollectionConfig where
  "playgroundPosts =
     \<lparr>fields_map = map_of
        [(''author'', ''ID-01''), (''authorPhoto'', ''ID-02''), (''byline'', ''AD-05'')]\<rparr>"

definition playgroundConfig :: ResponsivePrivacyConfig where
  "playgroundConfig =
     \<lparr>levels = None, attributes = None,
      collections = map_of [(''team'', playgroundTeam), (''posts'', playgroundPosts)]\<rparr>"

definition teamMember :: jsrecord where
  "teamMember =
     [(''name'', JStr ''Jane Smith''),
      (''photo'', JStr ''/images/jane.jpg''),
      (''role'', JStr ''Program Director''),
      (''bio'', JStr ''Jane has 15 years of experience in humanitarian response.''),
      (''email'', JStr ''jane@example.org''),
      (''department'', JStr ''Programs''),
      (''slug'', JStr ''jane-smith'')]"




text \<open>A configuration whose mapping names an attribute id that the catalog does not have,
  and one that maps a field to the empty string.\<close>

definition unresolvedCollection :: CollectionConfig where
  "unresolvedCollection = \<lparr>fields_map = map_of [(''nickname'', ''XX-99''), (''slug'', [])]\<rparr>"

definition unresolvedConfig :: ResponsivePrivacyConfig where
  "unresolvedConfig =
     \<lparr>levels = None, attributes = None,
      collections = map_of [(''team'', unresolvedCollection)]\<rparr>"



definition protoCollection :: CollectionConfig where
  "protoCollection = \<lparr>fields_map = map_of [(''__proto__'', [])]\<rparr>"

definition protoConfig :: ResponsivePrivacyConfig where
  "protoConfig =
     \<lparr>levels = None, attributes = None,
      collections = map_of [(''team'', protoCollection)]\<rparr>"

section \<open>Properties\<close>

subsection \<open>The loop of \<open>applyPrivacy\<close>, characterised\<close>

lemma getRedactedValue_Replace:
  "redaction attr = Some Replace \<Longrightarrow> getRedactedValue attr \<noteq> JUndefined"
  by (simp add: getRedactedValue_def)


lemma applyPrivacyStep_eq:
  "applyPrivacyStep cc ctx (r, out) (f, v) =
     (r\<lparr>data := stepData cc ctx (data r) (f, v),
        fields_res := fields_res r @ [stepFieldResult cc ctx f v],
        hiddenFields := hiddenFields r @ (if hiddenAt cc ctx f then [f] else []),
        warnings := warnings r @ stepWarnings cc ctx f\<rparr>,
      out @ stepConsole cc ctx f)"
  by (auto simp: applyPrivacyStep_def applyAttribute_def stepData_def stepFieldResult_def
      hiddenAt_def omittedAt_def stepWarnings_def stepConsole_def governingAttribute_def
      fieldAttributeId_def Let_def getRedactedValue_Replace
      split: lookup.splits option.splits RedactionStrategy.splits)

lemma applyPrivacy_loop:
  "foldl (applyPrivacyStep cc ctx) (r, out) es =
     (r\<lparr>data := foldl (stepData cc ctx) (data r) es,
        fields_res := fields_res r @ map (\<lambda>e. stepFieldResult cc ctx (fst e) (snd e)) es,
        hiddenFields := hiddenFields r @ filter (hiddenAt cc ctx) (map fst es),
        warnings := warnings r @ concat (map (\<lambda>e. stepWarnings cc ctx (fst e)) es)\<rparr>,
      out @ concat (map (\<lambda>e. stepConsole cc ctx (fst e)) es))"
proof (induction es arbitrary: r out)
  case Nil
  show ?case by simp
next
  case (Cons e es)
  obtain f v where e: "e = (f, v)" by (cases e)
  show ?case
    unfolding e foldl_Cons applyPrivacyStep_eq Cons.IH
    by simp
qed

lemma applyPrivacy_eq:
  "applyPrivacy dat (Own cc) ctx =
     Inr (\<lparr>data = foldl (stepData cc ctx) [] dat,
            fields_res = map (\<lambda>e. stepFieldResult cc ctx (fst e) (snd e)) dat,
            hiddenFields = filter (hiddenAt cc ctx) (map fst dat),
            warnings = concat (map (\<lambda>e. stepWarnings cc ctx (fst e)) dat)\<rparr>,
          concat (map (\<lambda>e. stepConsole cc ctx (fst e)) dat))"
  unfolding applyPrivacy_def lookup.case applyPrivacy_loop by simp

lemma transformEntry_configured:
  "getMember (collectionsR (config ctx)) cn = Own cc \<Longrightarrow>
   transformEntry cn dat ctx = applyPrivacy dat (Own cc) ctx"
  by (simp add: transformEntry_def)

lemma keys_setOwnProperty: "fst ` set (setOwnProperty d k v) = insert k (fst ` set d)"
  by (induction d) auto

lemma keys_setProperty:
  "fst ` set (setProperty d k v) =
     (if k = ''__proto__'' then fst ` set d else insert k (fst ` set d))"
  by (simp add: setProperty_def keys_setOwnProperty)

lemma keys_stepData_loop:
  "fst ` set (foldl (stepData cc ctx) d es) =
     fst ` set d \<union> {f \<in> fst ` set es. \<not> omittedAt cc ctx f \<and> f \<noteq> ''__proto__''}"
proof (induction es arbitrary: d)
  case Nil
  show ?case by simp
next
  case (Cons e es)
  show ?case
    unfolding foldl_Cons Cons.IH
    by (auto simp: stepData_def keys_setProperty)
qed

lemma setOwnProperty_fresh: "k \<notin> fst ` set d \<Longrightarrow> setOwnProperty d k v = d @ [(k, v)]"
  by (induction d) auto

lemma stepData_loop_distinct:
  "distinct (map fst es) \<Longrightarrow> fst ` set d \<inter> fst ` set es = {} \<Longrightarrow>
   foldl (stepData cc ctx) d es =
     d @ map (\<lambda>e. (fst e, fvalue (stepFieldResult cc ctx (fst e) (snd e))))
           (filter (\<lambda>e. \<not> omittedAt cc ctx (fst e) \<and> fst e \<noteq> ''__proto__'') es)"
proof (induction es arbitrary: d)
  case Nil
  show ?case by simp
next
  case (Cons e es)
  from Cons.prems have fresh: "fst e \<notin> fst ` set d" by auto
  from Cons.prems have dist: "distinct (map fst es)" by simp
  have disj: "fst ` set (stepData cc ctx d e) \<inter> fst ` set es = {}"
    using Cons.prems by (auto simp: stepData_def keys_setProperty)
  show ?case
    unfolding foldl_Cons Cons.IH [OF dist disj]
    using fresh by (simp add: stepData_def setProperty_def setOwnProperty_fresh)
qed

lemma data_applyPrivacy_distinct:
  "distinct (map fst dat) \<Longrightarrow>
   foldl (stepData cc ctx) [] dat =
     map (\<lambda>e. (fst e, fvalue (stepFieldResult cc ctx (fst e) (snd e))))
       (filter (\<lambda>e. \<not> omittedAt cc ctx (fst e) \<and> fst e \<noteq> ''__proto__'') dat)"
  using stepData_loop_distinct [of dat "[]" cc ctx] by simp

lemma field_stepFieldResult [simp]: "field (stepFieldResult cc ctx f v) = f"
  by (simp add: stepFieldResult_def Let_def split: lookup.splits)




lemma visible_stepFieldResult:
  "visible (stepFieldResult cc ctx f v) \<longleftrightarrow> \<not> hiddenAt cc ctx f"
  by (auto simp: stepFieldResult_def hiddenAt_def Let_def split: lookup.splits)

lemma getProperty_distinct:
  "distinct (map fst dat) \<Longrightarrow> e \<in> set dat \<Longrightarrow> getProperty dat (fst e) = snd e"
  by (cases e) (simp add: getProperty_def)









subsection \<open>The branches of \<open>transformEntry\<close> and \<open>shouldShow\<close>\<close>

lemma isAttributeVisible_rule:
  "isAttributeVisible aid lvl attrs =
     (case attrs aid of
        Some attr \<Rightarrow> threshold attr \<le> lvl
      | None \<Rightarrow> aid \<notin> set objectPrototypeNames)"
  by (simp add: isAttributeVisible_def getMember_def split: option.splits)

lemma transformEntry_unconfigured:
  assumes "getMember (collectionsR (config ctx)) cn = Missing" and "distinct (map fst dat)"
  shows "transformEntry cn dat ctx =
     Inr (\<lparr>data = dat,
           fields_res = map (\<lambda>e. \<lparr>field = fst e, attributeId = IdString [], visible = True,
                                    fvalue = snd e, redactionApplied = None\<rparr>) dat,
           hiddenFields = [],
           warnings = []\<rparr>, [])"
  using assms by (simp add: transformEntry_def getProperty_distinct)

lemma transformEntry_inherited:
  assumes "collectionsR (config ctx) cn = None" and "cn \<in> set objectPrototypeNames"
    and "dat \<noteq> []"
  shows "transformEntry cn dat ctx = Inl TypeError"
  using assms by (simp add: transformEntry_def applyPrivacy_def getMember_def)

lemma transformEntry_cases:
  "transformEntry cn dat ctx =
     (case getMember (collectionsR (config ctx)) cn of
        Missing \<Rightarrow>
          Inr (\<lparr>data = dat,
                fields_res = map (\<lambda>fld. \<lparr>field = fld, attributeId = IdString [],
                                         visible = True, fvalue = getProperty dat fld,
                                         redactionApplied = None\<rparr>) (map fst dat),
                hiddenFields = [], warnings = []\<rparr>, [])
      | Own cc \<Rightarrow>
          Inr (\<lparr>data = foldl (stepData cc ctx) [] dat,
                fields_res = map (\<lambda>e. stepFieldResult cc ctx (fst e) (snd e)) dat,
                hiddenFields = filter (hiddenAt cc ctx) (map fst dat),
                warnings = concat (map (\<lambda>e. stepWarnings cc ctx (fst e)) dat)\<rparr>,
               concat (map (\<lambda>e. stepConsole cc ctx (fst e)) dat))
      | Inherited n \<Rightarrow>
          if dat = [] then
            Inr (\<lparr>data = [], fields_res = [], hiddenFields = [], warnings = []\<rparr>, [])
          else Inl TypeError)"
  by (cases "getMember (collectionsR (config ctx)) cn")
     (simp_all add: transformEntry_def applyPrivacy_eq, simp add: applyPrivacy_def)

lemma shouldShow_eq:
  "fst (shouldShow envVal cn fieldName cfg lvlArg) =
     (case getMember (collectionsR (config (fst (createContext envVal cfg lvlArg)))) cn of
        Missing \<Rightarrow> Inr True
      | Inherited n \<Rightarrow> Inl TypeError
      | Own cc \<Rightarrow> Inr (\<not> hiddenAt cc (fst (createContext envVal cfg lvlArg)) fieldName))"
  by (cases lvlArg; cases "readPrivacyLevel envVal None")
     (auto simp: shouldShow_def createContext_def hiddenAt_def governingAttribute_def
        fieldAttributeId_def Let_def split: lookup.splits)

lemma empty_mapping_passes:
  assumes "getMember (collectionsR (config ctx)) cn = Own cc" and "fields_map cc f = Some []"
    and "(f, v) \<in> set dat" and "distinct (map fst dat)"
  shows "\<exists>r out. transformEntry cn dat ctx = Inr (r, out)
     \<and> \<lparr>field = f, attributeId = IdString [], visible = True, fvalue = v,
          redactionApplied = None\<rparr> \<in> set (fields_res r)
     \<and> f \<notin> set (hiddenFields r)
     \<and> (f \<noteq> ''__proto__'' \<longrightarrow> (f, v) \<in> set (data r))
     \<and> (f = ''__proto__'' \<longrightarrow> f \<notin> fst ` set (data r))"
proof -
  let ?res = "\<lambda>e. stepFieldResult cc ctx (fst e) (snd e)"
  let ?r = "\<lparr>data = foldl (stepData cc ctx) [] dat,
            fields_res = map ?res dat,
            hiddenFields = filter (hiddenAt cc ctx) (map fst dat),
            warnings = concat (map (\<lambda>e. stepWarnings cc ctx (fst e)) dat)\<rparr>"
  let ?out = "concat (map (\<lambda>e. stepConsole cc ctx (fst e)) dat)"
  have run: "transformEntry cn dat ctx = Inr (?r, ?out)"
    using assms(1) by (simp add: transformEntry_configured applyPrivacy_eq)
  have aid: "fieldAttributeId cc f = None"
    using assms(2) by (simp add: fieldAttributeId_def getMember_def)
  have gov: "governingAttribute cc ctx f = Missing"
    using aid by (simp add: governingAttribute_def)
  have vis: "\<not> hiddenAt cc ctx f" "\<not> omittedAt cc ctx f"
    using gov by (simp_all add: hiddenAt_def omittedAt_def)
  have res: "stepFieldResult cc ctx f v =
      \<lparr>field = f, attributeId = IdString [], visible = True, fvalue = v,
        redactionApplied = None\<rparr>"
    using aid gov by (simp add: stepFieldResult_def)
  have "?res (f, v) \<in> ?res ` set dat"
    using assms(3) by (rule imageI)
  then have c1: "\<lparr>field = f, attributeId = IdString [], visible = True, fvalue = v,
                   redactionApplied = None\<rparr> \<in> set (fields_res ?r)"
    by (simp add: res)
  have c2: "f \<notin> set (hiddenFields ?r)"
    using vis(1) by simp
  have c3: "(f, v) \<in> set (data ?r)" if "f \<noteq> ''__proto__''"
  proof -
    have "(f, v) \<in> set (filter (\<lambda>e. \<not> omittedAt cc ctx (fst e) \<and> fst e \<noteq> ''__proto__'') dat)"
      using assms(3) vis(2) that by simp
    then have "(fst (f, v), fvalue (?res (f, v)))
        \<in> (\<lambda>e. (fst e, fvalue (?res e)))
           ` set (filter (\<lambda>e. \<not> omittedAt cc ctx (fst e) \<and> fst e \<noteq> ''__proto__'') dat)"
      by (rule imageI)
    then show ?thesis
      by (simp add: data_applyPrivacy_distinct [OF assms(4)] res)
  qed
  have c4: "f \<notin> fst ` set (data ?r)" if "f = ''__proto__''"
    using that by (simp add: keys_stepData_loop)
  have all: "\<lparr>field = f, attributeId = IdString [], visible = True, fvalue = v,
          redactionApplied = None\<rparr> \<in> set (fields_res ?r)
     \<and> f \<notin> set (hiddenFields ?r)
     \<and> (f \<noteq> ''__proto__'' \<longrightarrow> (f, v) \<in> set (data ?r))
     \<and> (f = ''__proto__'' \<longrightarrow> f \<notin> fst ` set (data ?r))"
    using c1 c2 c3 c4 by (intro conjI impI)
  show ?thesis
    by (rule exI [of _ ?r], rule exI [of _ ?out], rule conjI [OF run all])
qed

subsection \<open>Reading a level\<close>









lemma range_cases:
  "(0x80::nat) \<le> x \<Longrightarrow> x \<le> 0x8A \<Longrightarrow>
   x = 0x80 \<or> x = 0x81 \<or> x = 0x82 \<or> x = 0x83 \<or> x = 0x84 \<or> x = 0x85 \<or> x = 0x86
   \<or> x = 0x87 \<or> x = 0x88 \<or> x = 0x89 \<or> x = 0x8A"
  by arith

lemma inj_map_of_char: "inj (map (of_char :: char \<Rightarrow> nat))"
  by (rule inj_mapI) (rule injI, simp)

lemma whiteSpaceChars_codes:
  "w \<in> set whiteSpaceChars \<longleftrightarrow>
   (map of_char w :: nat list) \<in> map of_char ` set whiteSpaceChars"
  using inj_image_mem_iff [OF inj_map_of_char, of w "set whiteSpaceChars"] by simp

lemma whiteSpaceChars_image: "(map of_char ` set whiteSpaceChars :: nat list set) =
  {[0x09], [0x0A], [0x0B], [0x0C], [0x0D], [0x20], [0xC2, 0xA0], [0xE1, 0x9A, 0x80],
   [0xE2, 0x80, 0x80], [0xE2, 0x80, 0x81], [0xE2, 0x80, 0x82], [0xE2, 0x80, 0x83],
   [0xE2, 0x80, 0x84], [0xE2, 0x80, 0x85], [0xE2, 0x80, 0x86], [0xE2, 0x80, 0x87],
   [0xE2, 0x80, 0x88], [0xE2, 0x80, 0x89], [0xE2, 0x80, 0x8A], [0xE2, 0x80, 0xA8],
   [0xE2, 0x80, 0xA9], [0xE2, 0x80, 0xAF], [0xE2, 0x81, 0x9F], [0xE3, 0x80, 0x80],
   [0xEF, 0xBB, 0xBF]}"
  by (simp add: whiteSpaceChars_def)

lemma whiteSpaceLength_unfold:
  "whiteSpaceLength (c # cs) =
     (let a = (of_char c :: nat); r = (map of_char (take 2 cs) :: nat list) in
          if a \<in> {0x09, 0x0A, 0x0B, 0x0C, 0x0D, 0x20} then 1
          else if a = 0xC2 then (if take 1 r = [0xA0] then 2 else 0)
          else if a = 0xE1 then (if r = [0x9A, 0x80] then 3 else 0)
          else if a = 0xE2 then
            (case r of
               [b, x] \<Rightarrow>
                 if b = 0x80 \<and> (0x80 \<le> x \<and> x \<le> 0x8A \<or> x = 0xA8 \<or> x = 0xA9 \<or> x = 0xAF)
                    \<or> b = 0x81 \<and> x = 0x9F
                 then 3 else 0
             | _ \<Rightarrow> 0)
          else if a = 0xE3 then (if r = [0x80, 0x80] then 3 else 0)
          else if a = 0xEF then (if r = [0xBB, 0xBF] then 3 else 0)
          else 0)"
  by (simp add: whiteSpaceLength_def Let_def)

lemma whiteSpaceLength_take:
  assumes "whiteSpaceLength s \<noteq> 0"
  shows "take (whiteSpaceLength s) s \<in> set whiteSpaceChars"
proof (cases s)
  case Nil
  with assms show ?thesis by (simp add: whiteSpaceLength_def)
next
  case (Cons c cs)
  define a :: nat where "a = of_char c"
  define r :: "nat list" where "r = map of_char (take 2 cs)"
  note n = whiteSpaceLength_unfold [of c cs, unfolded Let_def, folded a_def r_def]
  have nz: "whiteSpaceLength (c # cs) \<noteq> 0" using assms Cons by simp
  consider (one) "a \<in> {0x09, 0x0A, 0x0B, 0x0C, 0x0D, 0x20}"
    | (two) "a \<notin> {0x09, 0x0A, 0x0B, 0x0C, 0x0D, 0x20}" "a = 0xC2"
    | (three) "a \<notin> {0x09, 0x0A, 0x0B, 0x0C, 0x0D, 0x20}" "a \<noteq> 0xC2"
    by blast
  then have "(map of_char (take (whiteSpaceLength (c # cs)) (c # cs)) :: nat list)
      \<in> map of_char ` set whiteSpaceChars"
  proof cases
    case one
    then have "whiteSpaceLength (c # cs) = 1" by (simp only: n if_True)
    moreover have "[a] \<in> (map of_char ` set whiteSpaceChars :: nat list set)"
      unfolding whiteSpaceChars_image using one by auto
    ultimately show ?thesis by (simp add: a_def)
  next
    case two
    have t: "take 1 r = [0xA0]"
      using nz two by (simp add: n split: if_splits)
    then have l: "whiteSpaceLength (c # cs) = 2"
      using two by (simp add: n)
    have "take 1 r = map of_char (take 1 cs)"
      by (simp add: r_def take_map [symmetric])
    then have "(map of_char (take 2 (c # cs)) :: nat list) = [a, 0xA0]"
      using t by (cases cs) (simp_all add: a_def)
    then show ?thesis unfolding l whiteSpaceChars_image using two by simp
  next
    case three
    have l: "whiteSpaceLength (c # cs) = 3"
      using nz three by (auto simp: n split: if_splits list.splits)
    have m: "a = 0xE1 \<and> r = [0x9A, 0x80]
        \<or> a = 0xE2 \<and> (\<exists>x. r = [0x80, x] \<and> (0x80 \<le> x \<and> x \<le> 0x8A \<or> x = 0xA8 \<or> x = 0xA9 \<or> x = 0xAF))
        \<or> a = 0xE2 \<and> r = [0x81, 0x9F]
        \<or> a = 0xE3 \<and> r = [0x80, 0x80]
        \<or> a = 0xEF \<and> r = [0xBB, 0xBF]"
      using nz three by (simp add: n split: if_splits list.splits)
    have k: "(map of_char (take 3 (c # cs)) :: nat list) = a # r"
      by (simp add: a_def r_def)
    have "a # r \<in> (map of_char ` set whiteSpaceChars :: nat list set)"
      unfolding whiteSpaceChars_image using m by (auto dest!: range_cases)
    then show ?thesis unfolding l k .
  qed
  then show ?thesis
    unfolding Cons by (simp only: whiteSpaceChars_codes [symmetric])
qed

lemma trimStart_decomposition:
  "\<exists>wss. s = concat wss @ trimStart s \<and> set wss \<subseteq> set whiteSpaceChars
     \<and> whiteSpaceLength (trimStart s) = 0"
proof (induction s rule: trimStart.induct)
  case 1
  show ?case by (rule exI [of _ "[]"]) (simp add: whiteSpaceLength_def)
next
  case (2 c cs)
  show ?case
  proof (cases "whiteSpaceLength (c # cs) = 0")
    case True
    then show ?thesis by (intro exI [of _ "[]"]) simp
  next
    case False
    define n where "n = whiteSpaceLength (c # cs)"
    have n0: "n \<noteq> 0" using False by (simp add: n_def)
    have t: "trimStart (c # cs) = trimStart (drop (n - 1) cs)"
      using False by (simp add: n_def Let_def)
    have d: "c # cs = take n (c # cs) @ drop (n - 1) cs"
      using n0 by (cases n) simp_all
    have w: "take n (c # cs) \<in> set whiteSpaceChars"
      unfolding n_def using False by (rule whiteSpaceLength_take)
    have "\<exists>wss. drop (n - 1) cs = concat wss @ trimStart (drop (n - 1) cs)
        \<and> set wss \<subseteq> set whiteSpaceChars
        \<and> whiteSpaceLength (trimStart (drop (n - 1) cs)) = 0"
      unfolding n_def using refl False by (rule 2)
    then obtain wss where wss: "drop (n - 1) cs = concat wss @ trimStart (drop (n - 1) cs)"
      "set wss \<subseteq> set whiteSpaceChars" "whiteSpaceLength (trimStart (drop (n - 1) cs)) = 0"
      by (elim exE conjE)
    show ?thesis
      unfolding t
      by (rule exI [of _ "take n (c # cs) # wss"]) (use d w wss in simp)
  qed
qed

lemma envVal_decomposition:
  "\<exists>wss sg ds rest. s = concat wss @ sg @ ds @ rest
     \<and> set wss \<subseteq> set whiteSpaceChars
     \<and> (sg = [] \<or> sg = ''+'' \<or> sg = ''-'')
     \<and> list_all isDigit ds
     \<and> (rest = [] \<or> \<not> isDigit (hd rest))
     \<and> (sg = [] \<and> ds = [] \<longrightarrow>
          rest = [] \<or> (whiteSpaceLength rest = 0 \<and> hd rest \<noteq> CHR ''+'' \<and> hd rest \<noteq> CHR ''-''))"
proof -
  obtain wss where wss: "s = concat wss @ trimStart s" "set wss \<subseteq> set whiteSpaceChars"
    "whiteSpaceLength (trimStart s) = 0"
    using trimStart_decomposition [of s] by (elim exE conjE)
  define S where "S = trimStart s"
  define sg where "sg = (if S \<noteq> [] \<and> (hd S = CHR ''+'' \<or> hd S = CHR ''-'') then [hd S] else [])"
  define S1 where "S1 = (if S \<noteq> [] \<and> (hd S = CHR ''+'' \<or> hd S = CHR ''-'') then tl S else S)"
  have S: "S = sg @ takeWhile isDigit S1 @ dropWhile isDigit S1"
    by (cases S) (simp_all add: sg_def S1_def)
  have 1: "s = concat wss @ sg @ takeWhile isDigit S1 @ dropWhile isDigit S1"
    using wss(1) S by (simp add: S_def)
  have 2: "sg = [] \<or> sg = ''+'' \<or> sg = ''-''"
    by (auto simp: sg_def)
  have 3: "list_all isDigit (takeWhile isDigit S1)"
    by (simp add: list_all_iff) (meson set_takeWhileD)
  have 4: "dropWhile isDigit S1 = [] \<or> \<not> isDigit (hd (dropWhile isDigit S1))"
    using hd_dropWhile [of isDigit S1] by blast
  have 5: "sg = [] \<and> takeWhile isDigit S1 = [] \<longrightarrow>
      dropWhile isDigit S1 = [] \<or> (whiteSpaceLength (dropWhile isDigit S1) = 0
        \<and> hd (dropWhile isDigit S1) \<noteq> CHR ''+'' \<and> hd (dropWhile isDigit S1) \<noteq> CHR ''-'')"
  proof (intro impI)
    assume e: "sg = [] \<and> takeWhile isDigit S1 = []"
    then have "dropWhile isDigit S1 = S" using S by simp
    moreover have "S = [] \<or> (hd S \<noteq> CHR ''+'' \<and> hd S \<noteq> CHR ''-'')"
      using e by (auto simp: sg_def split: if_splits)
    moreover have "whiteSpaceLength S = 0" using wss(3) by (simp add: S_def)
    ultimately show "dropWhile isDigit S1 = [] \<or> (whiteSpaceLength (dropWhile isDigit S1) = 0
        \<and> hd (dropWhile isDigit S1) \<noteq> CHR ''+'' \<and> hd (dropWhile isDigit S1) \<noteq> CHR ''-'')"
      by auto
  qed
  show ?thesis
    by (rule exI [of _ wss], rule exI [of _ sg], rule exI [of _ "takeWhile isDigit S1"],
        rule exI [of _ "dropWhile isDigit S1"])
       (use 1 wss(2) 2 3 4 5 in blast)
qed

subsection \<open>Claims\<close>







text \<open>
  C3, at inputs where the code departs from it. The ids \<open>constructor\<close> and \<open>toString\<close> are
  absent from the default catalog, and yet \<open>isAttributeVisible\<close> is false for them, at
  level 4 and at level 0: \<open>attributes[attributeId]\<close> finds the member of
  \<open>Object.prototype\<close>, which is truthy, its \<open>threshold\<close> is \<open>undefined\<close>, and
  \<open>currentLevel >= undefined\<close> is false. An absent id that is no such name (\<open>UNKNOWN-99\<close>)
  is visible at level 0, as the comment of the function says of every unknown id. The rule
  the function follows on every input is \<open>isAttributeVisible_rule\<close>.
\<close>

theorem isAttributeVisible_inherited_id:
  "DEFAULT_ATTRIBUTES ''constructor'' = None
   \<and> \<not> isAttributeVisible ''constructor'' 4 DEFAULT_ATTRIBUTES
   \<and> \<not> isAttributeVisible ''toString'' 0 DEFAULT_ATTRIBUTES
   \<and> isAttributeVisible ''UNKNOWN-99'' 0 DEFAULT_ATTRIBUTES"
  by code_simp

text \<open>
  C4. Visibility is monotonic in the level: for every catalog and every attribute id, known
  or not, an attribute visible at a level \<open>L1\<close> is visible at every level \<open>L2 > L1\<close>
  (for all levels, so in particular for those of 0..4).
\<close>

theorem isAttributeVisible_mono:
  "L1 < L2 \<Longrightarrow> isAttributeVisible aid L1 attrs \<Longrightarrow> isAttributeVisible aid L2 attrs"
  by (cases "getMember attrs aid") (simp_all add: isAttributeVisible_def)

theorem isAttributeVisible_mono_witness:
  "(2::int) < 3 \<and> isAttributeVisible ''ID-01'' 2 DEFAULT_ATTRIBUTES
   \<and> isAttributeVisible ''ID-01'' 3 DEFAULT_ATTRIBUTES"
proof -
  have vis: "isAttributeVisible ''ID-01'' 2 DEFAULT_ATTRIBUTES"
    by code_simp
  have lt: "(2::int) < 3" by simp
  from isAttributeVisible_mono [OF lt vis] vis lt show ?thesis by simp
qed

text \<open>
  C5. Redaction resolution is a function of the attribute definition alone (no level is
  among its arguments) and it is total. It agrees with the specification's resolver: an
  unspecified strategy behaves as \<open>omit\<close> and gives \<open>undefined\<close>; \<open>replace\<close> gives the
  configured replacement text when there is one and otherwise the text
  \<open>[<attribute name> hidden]\<close>.
\<close>

theorem getRedactedValue_resolves:
  "getRedactedValue attr = substituteValue (resolveRedaction attr)
   \<and> (redaction attr = None \<or> redaction attr = Some Omit \<longrightarrow> getRedactedValue attr = JUndefined)
   \<and> (redaction attr = Some Replace \<longrightarrow>
        getRedactedValue attr =
          JStr (case redactedValue attr of
                  Some r \<Rightarrow> r
                | None \<Rightarrow> ''['' @ name attr @ '' hidden]''))"
  by (auto simp: getRedactedValue_def resolveRedaction_def
      split: option.splits RedactionStrategy.splits)

theorem getRedactedValue_resolves_witness:
  "getRedactedValue \<lparr>name = ''Full Name'', category = Identity, risk = High, threshold = 2,
      redaction = Some Replace, redactedValue = None, complianceProtected = None\<rparr>
     = JStr ''[Full Name hidden]''
   \<and> getRedactedValue \<lparr>name = ''Full Name'', category = Identity, risk = High, threshold = 2,
      redaction = Some Replace, redactedValue = Some ''Staff Member'',
      complianceProtected = None\<rparr>
     = JStr ''Staff Member''
   \<and> getRedactedValue \<lparr>name = ''Job Title/Role'', category = Identity, risk = Medium,
      threshold = 1, redaction = None, redactedValue = None, complianceProtected = None\<rparr>
     = JUndefined"
  using
    getRedactedValue_resolves [of "\<lparr>name = ''Full Name'', category = Identity, risk = High,
      threshold = 2, redaction = Some Replace, redactedValue = None,
      complianceProtected = None\<rparr>"]
    getRedactedValue_resolves [of "\<lparr>name = ''Full Name'', category = Identity, risk = High,
      threshold = 2, redaction = Some Replace, redactedValue = Some ''Staff Member'',
      complianceProtected = None\<rparr>"]
    getRedactedValue_resolves [of "\<lparr>name = ''Job Title/Role'', category = Identity,
      risk = Medium, threshold = 1, redaction = None, redactedValue = None,
      complianceProtected = None\<rparr>"]
  by (simp add: resolveRedaction_def)




text \<open>
  C7, at an input where the code departs from it. The playground's configuration has no
  collection named \<open>constructor\<close>, and \<open>transformEntry\<close> does not pass the sample record
  through: \<open>config.collections[collectionName]\<close> finds the member of \<open>Object.prototype\<close>,
  which is truthy, \<open>applyPrivacy\<close> reads \<open>collectionConfig.fields[field]\<close> with \<open>fields\<close>
  undefined, and a \<open>TypeError\<close> is raised. A name that is no such member
  (\<open>unknown-collection\<close>) gives the pass-through result; for every such name and every
  record this is \<open>transformEntry_unconfigured\<close>, and for every member name and every
  non-empty record the error is \<open>transformEntry_inherited\<close>.
\<close>

theorem transformEntry_inherited_collection:
  "collectionsR (config (fst (createContext None playgroundConfig (Some 0)))) ''constructor''
     = None
   \<and> transformEntry ''constructor'' teamMember
        (fst (createContext None playgroundConfig (Some 0))) = Inl TypeError
   \<and> transformEntry ''unknown-collection'' [(''name'', JStr ''Jane Smith'')]
        (fst (createContext None playgroundConfig (Some 0)))
      = Inr (\<lparr>data = [(''name'', JStr ''Jane Smith'')],
              fields_res = [\<lparr>field = ''name'', attributeId = IdString [], visible = True,
                              fvalue = JStr ''Jane Smith'', redactionApplied = None\<rparr>],
              hiddenFields = [],
              warnings = []\<rparr>, [])"
  by code_simp



text \<open>
  C9. \<open>shouldShow\<close> agrees with the transformer: for every configuration, level argument
  (given, or read from the environment), collection name, field name and record, every field
  result that \<open>transformEntry\<close> produces for that field, under the context created from the
  same configuration and level, has \<open>visible\<close> equal to the answer of \<open>shouldShow\<close>; and for
  a record that has the field, either \<open>transformEntry\<close> produces such a field result, or
  both functions raise a \<open>TypeError\<close> (the collection name is a member name of
  \<open>Object.prototype\<close>).
\<close>

theorem shouldShow_agrees:
  "(\<forall>r out. transformEntry cn dat (fst (createContext envVal cfg lvlArg)) = Inr (r, out) \<longrightarrow>
       (\<forall>fr \<in> set (fields_res r). field fr = fieldName \<longrightarrow>
          fst (shouldShow envVal cn fieldName cfg lvlArg) = Inr (visible fr)))
   \<and> (fieldName \<in> fst ` set dat \<longrightarrow>
        (transformEntry cn dat (fst (createContext envVal cfg lvlArg)) = Inl TypeError
         \<and> fst (shouldShow envVal cn fieldName cfg lvlArg) = Inl TypeError)
        \<or> (\<exists>r out. transformEntry cn dat (fst (createContext envVal cfg lvlArg)) = Inr (r, out)
             \<and> (\<exists>fr \<in> set (fields_res r). field fr = fieldName)))"
proof (cases "getMember (collectionsR (config (fst (createContext envVal cfg lvlArg)))) cn")
  case Missing
  then show ?thesis
    by (auto simp: shouldShow_eq transformEntry_cases)
next
  case (Own cc)
  have names: "fieldName \<in> fst ` set dat \<Longrightarrow>
      \<exists>e \<in> set dat. field (stepFieldResult cc (fst (createContext envVal cfg lvlArg))
        (fst e) (snd e)) = fieldName"
    by auto
  show ?thesis
    using Own names
    by (auto simp: shouldShow_eq transformEntry_cases visible_stepFieldResult)
next
  case (Inherited n)
  then show ?thesis
    by (auto simp: shouldShow_eq transformEntry_cases)
qed

theorem shouldShow_agrees_witness:
  "fst (shouldShow (Some ''1'') ''team'' ''name'' playgroundConfig None) = Inr False
   \<and> fst (shouldShow (Some ''1'') ''team'' ''role'' playgroundConfig None) = Inr True
   \<and> transformEntry ''team''
        [(''name'', JStr ''Jane Smith''), (''role'', JStr ''Program Director'')]
        (fst (createContext (Some ''1'') playgroundConfig None))
      = Inr (\<lparr>data = [(''name'', JStr ''Staff Member''),
                      (''role'', JStr ''Program Director'')],
              fields_res =
                [\<lparr>field = ''name'', attributeId = IdString ''ID-01'', visible = False,
                   fvalue = JStr ''Staff Member'', redactionApplied = Some Replace\<rparr>,
                 \<lparr>field = ''role'', attributeId = IdString ''ID-03'', visible = True,
                   fvalue = JStr ''Program Director'', redactionApplied = None\<rparr>],
              hiddenFields = [''name''],
              warnings = []\<rparr>, [])
   \<and> transformEntry ''constructor'' [(''name'', JStr ''Jane Smith'')]
        (fst (createContext (Some ''1'') playgroundConfig None)) = Inl TypeError
   \<and> fst (shouldShow (Some ''1'') ''constructor'' ''name'' playgroundConfig None)
      = Inl TypeError"
proof -
  let ?C = "fst (createContext (Some ''1'') playgroundConfig None)"
  let ?D = "[(''name'', JStr ''Jane Smith''), (''role'', JStr ''Program Director'')]"
  let ?R = "\<lparr>data = [(''name'', JStr ''Staff Member''),
                      (''role'', JStr ''Program Director'')],
              fields_res =
                [\<lparr>field = ''name'', attributeId = IdString ''ID-01'', visible = False,
                   fvalue = JStr ''Staff Member'', redactionApplied = Some Replace\<rparr>,
                 \<lparr>field = ''role'', attributeId = IdString ''ID-03'', visible = True,
                   fvalue = JStr ''Program Director'', redactionApplied = None\<rparr>],
              hiddenFields = [''name''],
              warnings = []\<rparr>"
  have run: "transformEntry ''team'' ?D ?C = Inr (?R, [])"
    by code_simp
  have thrown: "transformEntry ''constructor'' [(''name'', JStr ''Jane Smith'')] ?C
      = Inl TypeError"
    by code_simp
  have a: "fst (shouldShow (Some ''1'') ''team'' ''name'' playgroundConfig None) = Inr False"
    using shouldShow_agrees [of "''team''" ?D "Some ''1''" playgroundConfig None "''name''",
        THEN conjunct1, rule_format, OF run,
        of "\<lparr>field = ''name'', attributeId = IdString ''ID-01'', visible = False,
              fvalue = JStr ''Staff Member'', redactionApplied = Some Replace\<rparr>"]
    by simp
  have b: "fst (shouldShow (Some ''1'') ''team'' ''role'' playgroundConfig None) = Inr True"
    using shouldShow_agrees [of "''team''" ?D "Some ''1''" playgroundConfig None "''role''",
        THEN conjunct1, rule_format, OF run,
        of "\<lparr>field = ''role'', attributeId = IdString ''ID-03'', visible = True,
              fvalue = JStr ''Program Director'', redactionApplied = None\<rparr>"]
    by simp
  have c: "fst (shouldShow (Some ''1'') ''constructor'' ''name'' playgroundConfig None)
      = Inl TypeError"
    using shouldShow_agrees [of "''constructor''" "[(''name'', JStr ''Jane Smith'')]"
        "Some ''1''" playgroundConfig None "''name''", THEN conjunct2] thrown
    by simp
  show ?thesis
    by (intro conjI) (rule a b run thrown c)+
qed

text \<open>
  C10, at an input where the code departs from it. A record with the own key \<open>__proto__\<close>
  (as \<open>JSON.parse\<close> gives) whose mapping for that key is the empty string: the field
  result is visible with the empty attribute id and the field's value, but the field is not
  passed through, the filtered record being empty: \<open>result[field] = value\<close> runs the setter
  inherited from \<open>Object.prototype\<close> and creates no key. A field of any other name
  (\<open>slug\<close>) is passed through; for every field and record this is \<open>empty_mapping_passes\<close>.
\<close>

theorem empty_mapping_proto_field:
  "fields_map protoCollection ''__proto__'' = Some []
   \<and> transformEntry ''team'' [(''__proto__'', JStr ''x'')]
        (fst (createContext None protoConfig (Some 4)))
      = Inr (\<lparr>data = [],
              fields_res = [\<lparr>field = ''__proto__'', attributeId = IdString [],
                              visible = True, fvalue = JStr ''x'', redactionApplied = None\<rparr>],
              hiddenFields = [],
              warnings = []\<rparr>, [])
   \<and> transformEntry ''team'' [(''slug'', JStr ''jane-smith'')]
        (fst (createContext None unresolvedConfig (Some 0)))
      = Inr (\<lparr>data = [(''slug'', JStr ''jane-smith'')],
              fields_res = [\<lparr>field = ''slug'', attributeId = IdString [], visible = True,
                              fvalue = JStr ''jane-smith'', redactionApplied = None\<rparr>],
              hiddenFields = [],
              warnings = []\<rparr>, [])"
  by code_simp

end
